theory Spec2Isabelle
  imports Main "HOL-Library.Word"
begin

section \<open>The dependency container of needs.hpp\<close>

text \<open>
  The header \<^verbatim>\<open>include/needs.hpp\<close> defines four wrapper classes over a common base and
  the class template \<^verbatim>\<open>needs<Needs...>\<close>, which keeps one
  \<^verbatim>\<open>std::unique_ptr<base_wrapper>\<close> per declared type in a
  \<^verbatim>\<open>std::map<size_t, ...>\<close> keyed by \<^verbatim>\<open>type_id<T>()\<close>.

  The embedding is a state-passing one. C++ exceptions are values of a sum type, and every
  operation returns its result together with the state it leaves behind, so that the state
  after a throw can be inspected.
\<close>

subsection \<open>Pointers, keys, errors\<close>

text \<open>
  An object pointer is an address; \<^verbatim>\<open>nullptr\<close> is address 0. No pointer arithmetic
  occurs in the header. The map key is a \<^verbatim>\<open>size_t\<close>, taken as 64 bits wide.
\<close>

type_synonym addr = nat
type_synonym size_t = "64 word"

abbreviation nullptr :: addr where
  "nullptr \<equiv> 0"

text \<open>The two exception classes thrown by the header, each with its \<^verbatim>\<open>what()\<close> text.\<close>

datatype error = invalid_argument string | runtime_error string

subsection \<open>The wrapper hierarchy\<close>

text \<open>
  The subclasses of \<^verbatim>\<open>tbase_wrapper<T>\<close> are the constructors of one datatype, virtual
  dispatch is case distinction.
  \<^item> \<open>value_wrapper a\<close>: the member \<^verbatim>\<open>X value\<close> lives inside the wrapper object; \<open>a\<close> is
    the address of that member (the storage \<^verbatim>\<open>new\<close> returned for the wrapper), and the
    heap of the state records the object living there.
  \<^item> \<open>ptr_wrapper p\<close>: the member \<^verbatim>\<open>T* ptr\<close>.
  \<^item> \<open>uptr_wrapper p\<close>: the member \<^verbatim>\<open>std::unique_ptr<T> uptr\<close>, by the pointer it owns.
  \<^item> \<open>sptr_wrapper p\<close>: the member \<^verbatim>\<open>std::shared_ptr<T> sptr\<close>, by its stored pointer;
    the use count of the control block is kept in the state.
\<close>

datatype wrapper =
    value_wrapper addr
  | ptr_wrapper addr
  | uptr_wrapper addr
  | sptr_wrapper addr

text \<open>The virtual \<^verbatim>\<open>T* get()\<close> of each subclass, and \<^verbatim>\<open>getRaw\<close> of \<^verbatim>\<open>tbase_wrapper\<close>.\<close>

fun wrapper_get :: "wrapper \<Rightarrow> addr" where
  "wrapper_get (value_wrapper a) = a"
| "wrapper_get (ptr_wrapper p) = p"
| "wrapper_get (uptr_wrapper p) = p"
| "wrapper_get (sptr_wrapper p) = p"

definition getRaw :: "wrapper \<Rightarrow> addr" where
  "getRaw w = wrapper_get w"

text \<open>
  The constructors that can throw. \<^verbatim>\<open>ptr_wrapper(T& v)\<close> stores the address of its
  referent without a test.
\<close>

definition ptr_wrapper_ref_ctor :: "addr \<Rightarrow> wrapper" where
  "ptr_wrapper_ref_ctor v = ptr_wrapper v"

definition ptr_wrapper_ctor :: "addr \<Rightarrow> error + wrapper" where
  "ptr_wrapper_ctor v =
     (if v \<noteq> nullptr then Inr (ptr_wrapper v)
      else Inl (invalid_argument ''Null raw pointer!''))"

definition uptr_wrapper_ctor :: "addr \<Rightarrow> error + wrapper" where
  "uptr_wrapper_ctor v =
     (if v \<noteq> nullptr then Inr (uptr_wrapper v)
      else Inl (invalid_argument ''Null unique pointer!''))"

definition sptr_wrapper_ctor :: "addr \<Rightarrow> error + wrapper" where
  "sptr_wrapper_ctor v =
     (if v \<noteq> nullptr then Inr (sptr_wrapper v)
      else Inl (invalid_argument ''Null shared pointer!''))"

subsection \<open>The state: the container's map and the objects it points to\<close>

text \<open>
  \<open>values\<close> is the member \<^verbatim>\<open>std::map<size_t, std::unique_ptr<base_wrapper>> values\<close>:
  a key is absent (\<open>None\<close>), present with a null pointer (\<open>Some None\<close>), or present with a
  wrapper that the slot alone owns (\<open>Some (Some w)\<close>). \<open>heap\<close> holds the live objects a
  pointer can refer to, \<open>use_count\<close> the number of \<^verbatim>\<open>shared_ptr\<close> owners of the object at
  an address.
\<close>

record 'v state =
  "values" :: "size_t \<rightharpoonup> wrapper option"
  heap :: "addr \<rightharpoonup> 'v"
  use_count :: "addr \<Rightarrow> nat"

text \<open>Destructors of the two smart pointers: \<^verbatim>\<open>delete\<close> ends the life of the object.\<close>

definition unique_ptr_dtor :: "addr \<Rightarrow> 'v state \<Rightarrow> 'v state" where
  "unique_ptr_dtor p s = (if p = nullptr then s else s\<lparr>heap := (heap s)(p := None)\<rparr>)"

definition shared_ptr_dtor :: "addr \<Rightarrow> 'v state \<Rightarrow> 'v state" where
  "shared_ptr_dtor p s =
     (if p = nullptr then s
      else if use_count s p \<le> 1
        then s\<lparr>heap := (heap s)(p := None), use_count := (use_count s)(p := 0)\<rparr>
        else s\<lparr>use_count := (use_count s)(p := use_count s p - 1)\<rparr>)"

text \<open>
  The conversion \<^verbatim>\<open>std::shared_ptr<T>(std::unique_ptr<T>&&)\<close>: a non-null pointer gets a new
  control block with one owner, a null one gives an empty handle.
\<close>

definition shared_from_unique :: "addr \<Rightarrow> 'v state \<Rightarrow> 'v state" where
  "shared_from_unique p s =
     (if p = nullptr then s else s\<lparr>use_count := (use_count s)(p := 1)\<rparr>)"

text \<open>
  \<^verbatim>\<open>delete\<close> through the base pointer runs the virtual destructor, which destroys the
  members of the subclass.
\<close>

fun wrapper_dtor :: "wrapper \<Rightarrow> 'v state \<Rightarrow> 'v state" where
  "wrapper_dtor (value_wrapper a) s = s\<lparr>heap := (heap s)(a := None)\<rparr>"
| "wrapper_dtor (ptr_wrapper p) s = s"
| "wrapper_dtor (uptr_wrapper p) s = unique_ptr_dtor p s"
| "wrapper_dtor (sptr_wrapper p) s = shared_ptr_dtor p s"

text \<open>
  \<^verbatim>\<open>value_wrapper(X v) { value = std::move(v); }\<close> run on the storage \<open>a\<close> that
  \<^verbatim>\<open>new\<close> returned: the member at \<open>a\<close> now is \<open>v\<close>.
\<close>

definition value_wrapper_ctor :: "addr \<Rightarrow> 'v \<Rightarrow> 'v state \<Rightarrow> wrapper \<times> 'v state" where
  "value_wrapper_ctor a v s = (value_wrapper a, s\<lparr>heap := (heap s)(a \<mapsto> v)\<rparr>)"

text \<open>
  \<^verbatim>\<open>values[key]\<close>: \<^verbatim>\<open>std::map::operator[]\<close> inserts a value-initialised (null) slot when
  the key is absent, and gives the slot.
\<close>

definition map_index :: "size_t \<Rightarrow> 'v state \<Rightarrow> wrapper option \<times> 'v state" where
  "map_index key s =
     (case values s key of
        Some slot \<Rightarrow> (slot, s)
      | None \<Rightarrow> (None, s\<lparr>values := (values s)(key \<mapsto> None)\<rparr>))"

text \<open>
  \<^verbatim>\<open>values[key].reset(p)\<close> on a slot that exists: the slot takes the new pointer, then the
  wrapper it held before is deleted.
\<close>

definition reset :: "size_t \<Rightarrow> wrapper option \<Rightarrow> 'v state \<Rightarrow> 'v state" where
  "reset key p s =
     (let old = (case values s key of Some slot \<Rightarrow> slot | None \<Rightarrow> None);
          s1 = s\<lparr>values := (values s)(key \<mapsto> p)\<rparr>
      in case old of None \<Rightarrow> s1 | Some w \<Rightarrow> wrapper_dtor w s1)"

subsection \<open>The container\<close>

text \<open>
  \<^verbatim>\<open>type_id<T>()\<close> is the address of the function \<^verbatim>\<open>type<T>::uid\<close> cast to
  \<^verbatim>\<open>size_t\<close>; which number that is, the implementation decides. The operations take it as
  the parameter \<open>tid\<close>, over any type \<open>'t\<close> of C++ type names.
\<close>

text \<open>
  The constructor's loop \<^verbatim>\<open>for(auto t : { type_id<Needs>()... }) values[t] = nullptr\<close>.
\<close>

fun init_values :: "size_t list \<Rightarrow> (size_t \<rightharpoonup> wrapper option) \<Rightarrow> (size_t \<rightharpoonup> wrapper option)" where
  "init_values [] m = m"
| "init_values (t # ts) m = init_values ts (m(t \<mapsto> None))"

definition needs_ctor ::
  "('t \<Rightarrow> size_t) \<Rightarrow> 't list \<Rightarrow> (addr \<rightharpoonup> 'v) \<Rightarrow> (addr \<Rightarrow> nat) \<Rightarrow> 'v state" where
  "needs_ctor tid Needs h c =
     \<lparr>values = init_values (map tid Needs) Map.empty, heap = h, use_count = c\<rparr>"

definition verify_type :: "('t \<Rightarrow> size_t) \<Rightarrow> 't \<Rightarrow> 'v state \<Rightarrow> error + size_t" where
  "verify_type tid T s =
     (let key = tid T
      in if values s key \<noteq> None then Inr key
         else Inl (invalid_argument ''Type specified is not a need!''))"

definition get :: "('t \<Rightarrow> size_t) \<Rightarrow> 't \<Rightarrow> 'v state \<Rightarrow> (error + addr) \<times> 'v state" where
  "get tid X s =
     (case verify_type tid X s of
        Inl e \<Rightarrow> (Inl e, s)
      | Inr key \<Rightarrow>
          (case map_index key s of
             (Some w, s1) \<Rightarrow> (Inr (getRaw w), s1)
           | (None, s1) \<Rightarrow> (Inl (runtime_error ''Need type never set!''), s1)))"

text \<open>
  The five overloads of \<^verbatim>\<open>set\<close>, one definition each, named by the parameter:
  \<^verbatim>\<open>set<T,X>(X v)\<close>, \<^verbatim>\<open>set<T,X>(X* v)\<close>, \<^verbatim>\<open>set<T>(T& v)\<close>, \<^verbatim>\<open>set<T>(T* v)\<close> and
  \<^verbatim>\<open>set<T>(std::unique_ptr<T> v)\<close>. In each, \<^verbatim>\<open>values[key]\<close> is evaluated, then the
  argument \<^verbatim>\<open>new W(...)\<close>, then \<^verbatim>\<open>reset\<close>. \<open>set_value\<close> takes the storage \<open>a\<close> that
  \<^verbatim>\<open>new\<close> returns for the wrapper as a parameter; that \<^verbatim>\<open>new\<close> may fail to allocate is
  left out. The second template parameter \<open>X\<close> only fixes static types and does not occur.

  A \<^verbatim>\<open>std::unique_ptr<T>\<close> parameter owns its object: when \<open>verify_type\<close> throws, the
  parameter is destroyed during unwinding and the object with it. That overload passes its
  argument to the constructor of \<^verbatim>\<open>sptr_wrapper<T>\<close>, which converts it to a
  \<^verbatim>\<open>std::shared_ptr<T>\<close>. No overload takes a \<^verbatim>\<open>std::shared_ptr\<close>, and none calls
  the constructor of \<^verbatim>\<open>uptr_wrapper\<close>.
\<close>

definition set_value ::
  "('t \<Rightarrow> size_t) \<Rightarrow> 't \<Rightarrow> addr \<Rightarrow> 'v \<Rightarrow> 'v state \<Rightarrow> (error + unit) \<times> 'v state" where
  "set_value tid T a v s =
     (case verify_type tid T s of
        Inl e \<Rightarrow> (Inl e, s)
      | Inr key \<Rightarrow>
          (case map_index key s of
             (_, s1) \<Rightarrow>
               (case value_wrapper_ctor a v s1 of
                  (w, s2) \<Rightarrow> (Inr (), reset key (Some w) s2))))"

definition set_ptr_X ::
  "('t \<Rightarrow> size_t) \<Rightarrow> 't \<Rightarrow> addr \<Rightarrow> 'v state \<Rightarrow> (error + unit) \<times> 'v state" where
  "set_ptr_X tid T v s =
     (case verify_type tid T s of
        Inl e \<Rightarrow> (Inl e, s)
      | Inr key \<Rightarrow>
          (case map_index key s of
             (_, s1) \<Rightarrow>
               (case ptr_wrapper_ctor v of
                  Inl e \<Rightarrow> (Inl e, s1)
                | Inr w \<Rightarrow> (Inr (), reset key (Some w) s1))))"

definition set_ref ::
  "('t \<Rightarrow> size_t) \<Rightarrow> 't \<Rightarrow> addr \<Rightarrow> 'v state \<Rightarrow> (error + unit) \<times> 'v state" where
  "set_ref tid T v s =
     (case verify_type tid T s of
        Inl e \<Rightarrow> (Inl e, s)
      | Inr key \<Rightarrow>
          (case map_index key s of
             (_, s1) \<Rightarrow> (Inr (), reset key (Some (ptr_wrapper_ref_ctor v)) s1)))"

definition set_ptr ::
  "('t \<Rightarrow> size_t) \<Rightarrow> 't \<Rightarrow> addr \<Rightarrow> 'v state \<Rightarrow> (error + unit) \<times> 'v state" where
  "set_ptr tid T v s =
     (case verify_type tid T s of
        Inl e \<Rightarrow> (Inl e, s)
      | Inr key \<Rightarrow>
          (case map_index key s of
             (_, s1) \<Rightarrow>
               (case ptr_wrapper_ctor v of
                  Inl e \<Rightarrow> (Inl e, s1)
                | Inr w \<Rightarrow> (Inr (), reset key (Some w) s1))))"

definition set_unique ::
  "('t \<Rightarrow> size_t) \<Rightarrow> 't \<Rightarrow> addr \<Rightarrow> 'v state \<Rightarrow> (error + unit) \<times> 'v state" where
  "set_unique tid T v s =
     (case verify_type tid T s of
        Inl e \<Rightarrow> (Inl e, unique_ptr_dtor v s)
      | Inr key \<Rightarrow>
          (case map_index key s of
             (_, s1) \<Rightarrow>
               (case sptr_wrapper_ctor v of
                  Inl e \<Rightarrow> (Inl e, shared_from_unique v s1)
                | Inr w \<Rightarrow> (Inr (), reset key (Some w) (shared_from_unique v s1)))))"

subsection \<open>The demo program's types\<close>

text \<open>
  The types of the demo program, with one possible assignment of addresses to the functions
  \<^verbatim>\<open>type<T>::uid\<close>, and the container \<^verbatim>\<open>needs<IPrint,IDuck>\<close> of its struct \<^verbatim>\<open>A\<close>.
  Objects are \<^verbatim>\<open>PrintHello\<close> values, given by their suffix.
\<close>

datatype cpp_type = IPrint | IDuck | PrintHello | StdoutDuck

fun demo_tid :: "cpp_type \<Rightarrow> size_t" where
  "demo_tid IPrint = 0x401000"
| "demo_tid IDuck = 0x401010"
| "demo_tid PrintHello = 0x401020"
| "demo_tid StdoutDuck = 0x401030"

definition A_ctor :: "(addr \<rightharpoonup> string) \<Rightarrow> string state" where
  "A_ctor h = needs_ctor demo_tid [IPrint, IDuck] h (\<lambda>_. 0)"

text \<open>
  The state with a \<^verbatim>\<open>PrintHello("World!")\<close> object at address 7, after the demo's
  \<^verbatim>\<open>a.set<IPrint>(PrintHello("X"))\<close> with the wrapper's storage at address 8.
\<close>

definition A_populated :: "string state" where
  "A_populated = snd (set_value demo_tid IPrint 8 ''X'' (A_ctor [7 \<mapsto> ''World!'']))"

subsection \<open>Ownership\<close>

text \<open>
  By their class comments and destructors, all wrappers but \<open>ptr_wrapper\<close> own the object
  they refer to. Destroying a wrapper ends the life of that object when the wrapper is its
  last owner: always for the inline value and the unique pointer, at use count 1 for the
  shared pointer.
\<close>

fun owns :: "wrapper \<Rightarrow> bool" where
  "owns (value_wrapper a) = True"
| "owns (ptr_wrapper p) = False"
| "owns (uptr_wrapper p) = True"
| "owns (sptr_wrapper p) = True"

fun last_owner :: "'v state \<Rightarrow> wrapper \<Rightarrow> bool" where
  "last_owner s (value_wrapper a) = True"
| "last_owner s (ptr_wrapper p) = False"
| "last_owner s (uptr_wrapper p) = (p \<noteq> nullptr)"
| "last_owner s (sptr_wrapper p) = (p \<noteq> nullptr \<and> use_count s p \<le> 1)"

text \<open>The wrapper now held by the slot \<open>key\<close> owns the object at \<open>q\<close>.\<close>

definition slot_owns :: "'v state \<Rightarrow> size_t \<Rightarrow> addr \<Rightarrow> bool" where
  "slot_owns s key q =
     (case values s key of Some (Some w) \<Rightarrow> owns w \<and> wrapper_get w = q | _ \<Rightarrow> False)"

section \<open>Basic facts\<close>

lemma verify_type_Inr: "verify_type tid T s = Inr key \<Longrightarrow> key = tid T \<and> values s key \<noteq> None"
  by (simp add: verify_type_def Let_def split: if_splits)

lemma verify_type_declared: "values s (tid T) \<noteq> None \<Longrightarrow> verify_type tid T s = Inr (tid T)"
  by (simp add: verify_type_def)

lemma verify_type_undeclared:
  "values s (tid T) = None \<Longrightarrow>
     verify_type tid T s = Inl (invalid_argument ''Type specified is not a need!'')"
  by (simp add: verify_type_def)

lemma map_index_present: "values s key \<noteq> None \<Longrightarrow> map_index key s = (the (values s key), s)"
  by (auto simp: map_index_def)

lemma values_wrapper_dtor: "values (wrapper_dtor w s) = values s"
  by (cases w) (simp_all add: unique_ptr_dtor_def shared_ptr_dtor_def)

lemma values_reset: "values (reset key p s) = (values s)(key \<mapsto> p)"
  by (simp add: reset_def Let_def values_wrapper_dtor split: option.splits)

lemma values_shared_from_unique: "values (shared_from_unique p s) = values s"
  by (simp add: shared_from_unique_def)

lemma values_unique_ptr_dtor: "values (unique_ptr_dtor p s) = values s"
  by (simp add: unique_ptr_dtor_def)

lemma init_values_apply:
  "init_values ks m k = (if k \<in> set ks then Some None else m k)"
  by (induction ks arbitrary: m) auto

lemma values_needs_ctor:
  "values (needs_ctor tid Needs h c) k = (if k \<in> tid ` set Needs then Some None else None)"
  by (simp add: needs_ctor_def init_values_apply)

lemma dom_needs_ctor: "dom (values (needs_ctor tid Needs h c)) = tid ` set Needs"
  by (auto simp: values_needs_ctor dom_def)

lemma inj_demo_tid: "inj demo_tid"
proof (rule injI)
  fix x y :: cpp_type
  assume "demo_tid x = demo_tid y"
  then show "x = y" by (cases x; cases y; simp)
qed

subsection \<open>What each operation leaves behind\<close>

lemma get_state: "snd (get tid X s) = s"
proof (cases "verify_type tid X s")
  case (Inl e)
  then show ?thesis by (simp add: get_def)
next
  case (Inr key)
  then have "values s key \<noteq> None" by (simp add: verify_type_Inr)
  then have "map_index key s = (the (values s key), s)" by (rule map_index_present)
  with Inr show ?thesis by (simp add: get_def split: option.splits)
qed

lemma get_undeclared:
  "values s (tid T) = None \<Longrightarrow>
     get tid T s = (Inl (invalid_argument ''Type specified is not a need!''), s)"
  by (simp add: get_def verify_type_undeclared)

lemma get_empty_slot:
  "values s (tid T) = Some None \<Longrightarrow> get tid T s = (Inl (runtime_error ''Need type never set!''), s)"
  by (simp add: get_def verify_type_declared map_index_present)

lemma get_populated:
  "values s (tid T) = Some (Some w) \<Longrightarrow> get tid T s = (Inr (wrapper_get w), s)"
  by (simp add: get_def verify_type_declared map_index_present getRaw_def)

lemma set_value_undeclared:
  "values s (tid T) = None \<Longrightarrow>
     set_value tid T a v s = (Inl (invalid_argument ''Type specified is not a need!''), s)"
  by (simp add: set_value_def verify_type_undeclared)

lemma set_ptr_X_undeclared:
  "values s (tid T) = None \<Longrightarrow>
     set_ptr_X tid T p s = (Inl (invalid_argument ''Type specified is not a need!''), s)"
  by (simp add: set_ptr_X_def verify_type_undeclared)

lemma set_ref_undeclared:
  "values s (tid T) = None \<Longrightarrow>
     set_ref tid T p s = (Inl (invalid_argument ''Type specified is not a need!''), s)"
  by (simp add: set_ref_def verify_type_undeclared)

lemma set_ptr_undeclared:
  "values s (tid T) = None \<Longrightarrow>
     set_ptr tid T p s = (Inl (invalid_argument ''Type specified is not a need!''), s)"
  by (simp add: set_ptr_def verify_type_undeclared)

lemma set_unique_undeclared:
  "values s (tid T) = None \<Longrightarrow>
     set_unique tid T p s =
       (Inl (invalid_argument ''Type specified is not a need!''), unique_ptr_dtor p s)"
  by (simp add: set_unique_def verify_type_undeclared)

lemma set_value_declared:
  "values s (tid T) \<noteq> None \<Longrightarrow>
     set_value tid T a v s =
       (Inr (), reset (tid T) (Some (value_wrapper a)) (s\<lparr>heap := (heap s)(a \<mapsto> v)\<rparr>))"
  by (simp add: set_value_def verify_type_declared map_index_present value_wrapper_ctor_def)

lemma set_ptr_X_declared:
  "values s (tid T) \<noteq> None \<Longrightarrow>
     set_ptr_X tid T p s =
       (if p \<noteq> nullptr then (Inr (), reset (tid T) (Some (ptr_wrapper p)) s)
        else (Inl (invalid_argument ''Null raw pointer!''), s))"
  by (simp add: set_ptr_X_def verify_type_declared map_index_present ptr_wrapper_ctor_def)

lemma set_ref_declared:
  "values s (tid T) \<noteq> None \<Longrightarrow>
     set_ref tid T p s = (Inr (), reset (tid T) (Some (ptr_wrapper p)) s)"
  by (simp add: set_ref_def verify_type_declared map_index_present ptr_wrapper_ref_ctor_def)

lemma set_ptr_declared:
  "values s (tid T) \<noteq> None \<Longrightarrow>
     set_ptr tid T p s =
       (if p \<noteq> nullptr then (Inr (), reset (tid T) (Some (ptr_wrapper p)) s)
        else (Inl (invalid_argument ''Null raw pointer!''), s))"
  by (simp add: set_ptr_def verify_type_declared map_index_present ptr_wrapper_ctor_def)

lemma set_unique_declared:
  "values s (tid T) \<noteq> None \<Longrightarrow>
     set_unique tid T p s =
       (if p \<noteq> nullptr
        then (Inr (), reset (tid T) (Some (sptr_wrapper p)) (s\<lparr>use_count := (use_count s)(p := 1)\<rparr>))
        else (Inl (invalid_argument ''Null shared pointer!''), s))"
  by (simp add: set_unique_def verify_type_declared map_index_present sptr_wrapper_ctor_def
      shared_from_unique_def)

lemma dom_values_reset: "values s key \<noteq> None \<Longrightarrow> dom (values (reset key p s)) = dom (values s)"
  by (auto simp: values_reset)

lemma dom_get: "dom (values (snd (get tid T s))) = dom (values s)"
  by (simp add: get_state)

lemma dom_set_value: "dom (values (snd (set_value tid T a v s))) = dom (values s)"
proof (cases "values s (tid T) = None")
  case True
  then show ?thesis by (simp add: set_value_undeclared)
next
  case False
  then have "values (s\<lparr>heap := (heap s)(a \<mapsto> v)\<rparr>) (tid T) \<noteq> None" by simp
  then have "dom (values (reset (tid T) (Some (value_wrapper a)) (s\<lparr>heap := (heap s)(a \<mapsto> v)\<rparr>)))
               = dom (values (s\<lparr>heap := (heap s)(a \<mapsto> v)\<rparr>))"
    by (rule dom_values_reset)
  with False show ?thesis by (simp add: set_value_declared)
qed

lemma dom_set_ptr_X: "dom (values (snd (set_ptr_X tid T p s))) = dom (values s)"
proof (cases "values s (tid T) = None")
  case True
  then show ?thesis by (simp add: set_ptr_X_undeclared)
next
  case False
  then show ?thesis by (simp add: set_ptr_X_declared dom_values_reset)
qed

lemma dom_set_ref: "dom (values (snd (set_ref tid T p s))) = dom (values s)"
proof (cases "values s (tid T) = None")
  case True
  then show ?thesis by (simp add: set_ref_undeclared)
next
  case False
  then show ?thesis by (simp add: set_ref_declared dom_values_reset)
qed

lemma dom_set_ptr: "dom (values (snd (set_ptr tid T p s))) = dom (values s)"
proof (cases "values s (tid T) = None")
  case True
  then show ?thesis by (simp add: set_ptr_undeclared)
next
  case False
  then show ?thesis by (simp add: set_ptr_declared dom_values_reset)
qed

lemma dom_set_unique: "dom (values (snd (set_unique tid T p s))) = dom (values s)"
proof (cases "values s (tid T) = None")
  case True
  then show ?thesis by (simp add: set_unique_undeclared values_unique_ptr_dtor)
next
  case False
  then have "values (s\<lparr>use_count := (use_count s)(p := 1)\<rparr>) (tid T) \<noteq> None" by simp
  then have "dom (values (reset (tid T) (Some (sptr_wrapper p)) (s\<lparr>use_count := (use_count s)(p := 1)\<rparr>)))
               = dom (values (s\<lparr>use_count := (use_count s)(p := 1)\<rparr>))"
    by (rule dom_values_reset)
  with False show ?thesis by (simp add: set_unique_declared)
qed

text \<open>A type outside the declared list has no slot, once distinct types have distinct keys.\<close>

lemma undeclared_no_slot:
  assumes "inj tid" and "dom (values s) = tid ` set Needs" and "T \<notin> set Needs"
  shows "values s (tid T) = None"
proof -
  from assms(1,3) have "tid T \<notin> tid ` set Needs" by (auto dest: injD)
  with assms(2) show ?thesis by (auto simp: dom_def)
qed

lemma declared_has_slot:
  assumes "dom (values s) = tid ` set Needs" and "T \<in> set Needs"
  shows "values s (tid T) \<noteq> None"
proof -
  from assms have "tid T \<in> dom (values s)" by simp
  then show ?thesis by (simp add: dom_def)
qed

subsection \<open>Replacing a wrapper\<close>

lemma reset_populated:
  "values s key = Some (Some old) \<Longrightarrow>
     reset key p s = wrapper_dtor old (s\<lparr>values := (values s)(key \<mapsto> p)\<rparr>)"
  by (simp add: reset_def)

lemma reset_empty:
  "values s key = Some None \<Longrightarrow> reset key p s = s\<lparr>values := (values s)(key \<mapsto> p)\<rparr>"
  by (simp add: reset_def)

lemma heap_wrapper_dtor_other: "b \<noteq> wrapper_get w \<Longrightarrow> heap (wrapper_dtor w s) b = heap s b"
  by (cases w) (simp_all add: unique_ptr_dtor_def shared_ptr_dtor_def)

lemma wrapper_dtor_borrowed: "\<not> owns w \<Longrightarrow> wrapper_dtor w s = s"
  by (cases w) simp_all

lemma heap_wrapper_dtor_last: "last_owner s w \<Longrightarrow> heap (wrapper_dtor w s) (wrapper_get w) = None"
  by (cases w) (simp_all add: unique_ptr_dtor_def shared_ptr_dtor_def)

lemma heap_reset_other:
  assumes "\<And>old. values s key = Some (Some old) \<Longrightarrow> owns old \<Longrightarrow> wrapper_get old \<noteq> b"
  shows "heap (reset key p s) b = heap s b"
proof (cases "values s key")
  case None
  then show ?thesis by (simp add: reset_def)
next
  case (Some slot)
  show ?thesis
  proof (cases slot)
    case None
    with Some show ?thesis by (simp add: reset_empty)
  next
    case (Some old)
    with \<open>values s key = Some slot\<close> have v: "values s key = Some (Some old)" by simp
    show ?thesis
    proof (cases "owns old")
      case True
      with v assms have "b \<noteq> wrapper_get old" by blast
      with v show ?thesis by (simp add: reset_populated heap_wrapper_dtor_other)
    next
      case False
      with v show ?thesis by (simp add: reset_populated wrapper_dtor_borrowed)
    qed
  qed
qed

lemma heap_reset_released:
  assumes "values s key = Some (Some old)" and "last_owner s old"
  shows "heap (reset key p s) (wrapper_get old) = None"
proof -
  from assms(2) have "last_owner (s\<lparr>values := (values s)(key \<mapsto> p)\<rparr>) old"
    by (cases old) simp_all
  then show ?thesis using assms(1) by (simp add: reset_populated heap_wrapper_dtor_last)
qed

lemma get_after_reset:
  "get tid T (reset (tid T) (Some w) s) = (Inr (wrapper_get w), reset (tid T) (Some w) s)"
  by (rule get_populated) (simp add: values_reset)

lemma heap_reset_not_owned: "\<not> slot_owns s key b \<Longrightarrow> heap (reset key p s) b = heap s b"
  by (rule heap_reset_other) (simp add: slot_owns_def)

subsection \<open>The demo container, computed\<close>

lemma values_A_ctor:
  "values (A_ctor h) = (\<lambda>k. if k = 0x401000 \<or> k = 0x401010 then Some None else None)"
  by (rule ext) (simp add: A_ctor_def values_needs_ctor)

lemma values_A_populated:
  "values A_populated =
     (\<lambda>k. if k = 0x401000 then Some (Some (value_wrapper 8))
          else if k = 0x401010 then Some None else None)"
  by (rule ext) (simp add: A_populated_def set_value_declared values_A_ctor values_reset)

lemma heap_A_populated: "heap A_populated = [7 \<mapsto> ''World!'', 8 \<mapsto> ''X'']"
  by (simp add: A_populated_def set_value_declared values_A_ctor reset_empty A_ctor_def
      needs_ctor_def)

lemma use_count_A_populated: "use_count A_populated = (\<lambda>_. 0)"
  by (simp add: A_populated_def set_value_declared values_A_ctor reset_empty A_ctor_def
      needs_ctor_def)

lemma dom_values_A_populated: "dom (values A_populated) = demo_tid ` set [IPrint, IDuck]"
  unfolding A_populated_def A_ctor_def by (simp only: dom_set_value dom_needs_ctor)

section \<open>The claims\<close>

text \<open>
  C5. The constructor of the borrowing wrapper given a null pointer, of the exclusively
  owning wrapper given an empty unique pointer and of the shared wrapper given an empty
  shared pointer each throw \<^verbatim>\<open>std::invalid_argument\<close>. Given a non-null pointer each of the
  three succeeds, and \<^verbatim>\<open>get()\<close> of the wrapper built returns that pointer.
\<close>

theorem wrapper_ctor_null_and_address:
  "ptr_wrapper_ctor nullptr = Inl (invalid_argument ''Null raw pointer!'')
   \<and> uptr_wrapper_ctor nullptr = Inl (invalid_argument ''Null unique pointer!'')
   \<and> sptr_wrapper_ctor nullptr = Inl (invalid_argument ''Null shared pointer!'')
   \<and> (p \<noteq> nullptr \<longrightarrow>
        (\<exists>w. ptr_wrapper_ctor p = Inr w \<and> wrapper_get w = p)
      \<and> (\<exists>w. uptr_wrapper_ctor p = Inr w \<and> wrapper_get w = p)
      \<and> (\<exists>w. sptr_wrapper_ctor p = Inr w \<and> wrapper_get w = p))"
  by (simp add: ptr_wrapper_ctor_def uptr_wrapper_ctor_def sptr_wrapper_ctor_def)

theorem wrapper_ctor_null_and_address_witness:
  "(7::nat) \<noteq> nullptr
   \<and> ptr_wrapper_ctor 7 = Inr (ptr_wrapper 7) \<and> wrapper_get (ptr_wrapper 7) = 7
   \<and> (\<exists>w. uptr_wrapper_ctor 7 = Inr w \<and> wrapper_get w = 7)
   \<and> (\<exists>w. sptr_wrapper_ctor 7 = Inr w \<and> wrapper_get w = 7)"
  using wrapper_ctor_null_and_address [of 7]
  by (simp add: ptr_wrapper_ctor_def)

text \<open>
  C7. \<^verbatim>\<open>get<X>()\<close> leaves the state as it found it, whatever the state and whether it
  returns a pointer or throws: \<^verbatim>\<open>values[key]\<close> is reached only after \<open>verify_type\<close> has
  found the key, so \<^verbatim>\<open>operator[]\<close> inserts nothing.
\<close>

theorem get_never_mutates: "snd (get tid X s) = s"
  by (rule get_state)

text \<open>
  C3, as stated: on a freshly constructed container, \<^verbatim>\<open>get<T>()\<close> for a declared \<open>T\<close>
  throws a runtime error whose text is "need never set". The container of the demo program
  is a concrete input where the exception thrown carries another text.
\<close>

theorem get_fresh_message_counterexample:
  "IDuck \<in> set [IPrint, IDuck]
   \<and> fst (get demo_tid IDuck (A_ctor Map.empty)) = Inl (runtime_error ''Need type never set!'')
   \<and> fst (get demo_tid IDuck (A_ctor Map.empty)) \<noteq> Inl (runtime_error ''need never set'')"
  by (simp add: A_ctor_def get_empty_slot values_needs_ctor)

text \<open>
  C3, amended: on a freshly constructed container, \<^verbatim>\<open>get<T>()\<close> for every declared \<open>T\<close>
  throws \<^verbatim>\<open>std::runtime_error\<close> with the text "Need type never set!", and leaves the
  container as constructed.
\<close>

theorem get_fresh_never_set:
  "T \<in> set Needs \<Longrightarrow>
     get tid T (needs_ctor tid Needs h c) =
       (Inl (runtime_error ''Need type never set!''), needs_ctor tid Needs h c)"
  by (rule get_empty_slot) (simp add: values_needs_ctor)

theorem get_fresh_never_set_witness:
  "IPrint \<in> set [IPrint, IDuck]
   \<and> get demo_tid IPrint (needs_ctor demo_tid [IPrint, IDuck] Map.empty (\<lambda>_. 0) :: string state) =
       (Inl (runtime_error ''Need type never set!''),
        needs_ctor demo_tid [IPrint, IDuck] Map.empty (\<lambda>_. 0))"
  using get_fresh_never_set [of IPrint "[IPrint, IDuck]" demo_tid Map.empty "\<lambda>_. 0"]
  by simp

text \<open>
  C2, as stated: for a type outside the declared list, \<^verbatim>\<open>get<T>()\<close> and \<^verbatim>\<open>set<T>(...)\<close>
  throw an invalid-argument error whose text is "type specified is not a need". On the
  container of the demo program, \<^verbatim>\<open>get<StdoutDuck>()\<close> throws an exception with another
  text.
\<close>

theorem undeclared_message_counterexample:
  "StdoutDuck \<notin> set [IPrint, IDuck]
   \<and> fst (get demo_tid StdoutDuck (A_ctor Map.empty))
       = Inl (invalid_argument ''Type specified is not a need!'')
   \<and> fst (get demo_tid StdoutDuck (A_ctor Map.empty))
       \<noteq> Inl (invalid_argument ''type specified is not a need'')"
  by (simp add: A_ctor_def get_undeclared values_needs_ctor)

text \<open>
  C2, amended: when the slots of the container are those of the declared list and distinct
  types have distinct identifiers, then for every type \<open>T\<close> outside the list \<^verbatim>\<open>get<T>()\<close>
  and every overload of \<^verbatim>\<open>set<T>(...)\<close> throw \<^verbatim>\<open>std::invalid_argument\<close> with the text
  "Type specified is not a need!", whatever the argument (a null pointer included: the type
  is checked first).
\<close>

theorem undeclared_type_rejected:
  assumes "inj tid" and "dom (values s) = tid ` set Needs" and "T \<notin> set Needs"
  shows "fst (get tid T s) = Inl (invalid_argument ''Type specified is not a need!'')
       \<and> fst (set_value tid T a v s) = Inl (invalid_argument ''Type specified is not a need!'')
       \<and> fst (set_ptr_X tid T p s) = Inl (invalid_argument ''Type specified is not a need!'')
       \<and> fst (set_ref tid T p s) = Inl (invalid_argument ''Type specified is not a need!'')
       \<and> fst (set_ptr tid T p s) = Inl (invalid_argument ''Type specified is not a need!'')
       \<and> fst (set_unique tid T p s) = Inl (invalid_argument ''Type specified is not a need!'')"
proof -
  from assms have "values s (tid T) = None" by (rule undeclared_no_slot)
  then show ?thesis
    by (simp add: get_undeclared set_value_undeclared set_ptr_X_undeclared set_ref_undeclared
        set_ptr_undeclared set_unique_undeclared)
qed

theorem undeclared_type_rejected_witness:
  "inj demo_tid
   \<and> dom (values (A_ctor Map.empty)) = demo_tid ` set [IPrint, IDuck]
   \<and> StdoutDuck \<notin> set [IPrint, IDuck]
   \<and> fst (get demo_tid StdoutDuck (A_ctor Map.empty))
       = Inl (invalid_argument ''Type specified is not a need!'')
   \<and> fst (set_value demo_tid StdoutDuck 8 ''Quack'' (A_ctor Map.empty))
       = Inl (invalid_argument ''Type specified is not a need!'')
   \<and> fst (set_ptr demo_tid StdoutDuck nullptr (A_ctor Map.empty))
       = Inl (invalid_argument ''Type specified is not a need!'')
   \<and> fst (set_unique demo_tid StdoutDuck 7 (A_ctor Map.empty))
       = Inl (invalid_argument ''Type specified is not a need!'')"
proof -
  have d: "dom (values (A_ctor Map.empty :: string state)) = demo_tid ` set [IPrint, IDuck]"
    unfolding A_ctor_def by (rule dom_needs_ctor)
  have n: "StdoutDuck \<notin> set [IPrint, IDuck]" by simp
  have "fst (get demo_tid StdoutDuck (A_ctor Map.empty))
          = Inl (invalid_argument ''Type specified is not a need!'')
      \<and> fst (set_value demo_tid StdoutDuck 8 ''Quack'' (A_ctor Map.empty))
          = Inl (invalid_argument ''Type specified is not a need!'')
      \<and> fst (set_ptr_X demo_tid StdoutDuck nullptr (A_ctor Map.empty :: string state))
          = Inl (invalid_argument ''Type specified is not a need!'')
      \<and> fst (set_ref demo_tid StdoutDuck nullptr (A_ctor Map.empty :: string state))
          = Inl (invalid_argument ''Type specified is not a need!'')
      \<and> fst (set_ptr demo_tid StdoutDuck nullptr (A_ctor Map.empty :: string state))
          = Inl (invalid_argument ''Type specified is not a need!'')
      \<and> fst (set_unique demo_tid StdoutDuck nullptr (A_ctor Map.empty :: string state))
          = Inl (invalid_argument ''Type specified is not a need!'')"
    by (rule undeclared_type_rejected [OF inj_demo_tid d n])
  moreover have "fst (set_unique demo_tid StdoutDuck 7 (A_ctor Map.empty :: string state))
          = Inl (invalid_argument ''Type specified is not a need!'')"
    using undeclared_type_rejected [OF inj_demo_tid d n, of 8 "''Quack''" 7] by simp
  ultimately show ?thesis using inj_demo_tid d n by simp
qed

text \<open>
  C9. The constructor makes the slots of the declared types and no other: the keys of the
  map are the identifiers of the types in the list, in one-to-one correspondence with the
  types when their identifiers are distinct. \<^verbatim>\<open>get\<close> and the five overloads of \<^verbatim>\<open>set\<close>
  leave the set of keys as it is, on every state and for every argument, whether they
  return or throw.
\<close>

theorem slots_fixed:
  "dom (values (needs_ctor tid Needs h c)) = tid ` set Needs
   \<and> (inj_on tid (set Needs) \<longrightarrow>
        bij_betw tid (set Needs) (dom (values (needs_ctor tid Needs h c))))
   \<and> dom (values (snd (get tid T s))) = dom (values s)
   \<and> dom (values (snd (set_value tid T a v s))) = dom (values s)
   \<and> dom (values (snd (set_ptr_X tid T p s))) = dom (values s)
   \<and> dom (values (snd (set_ref tid T p s))) = dom (values s)
   \<and> dom (values (snd (set_ptr tid T p s))) = dom (values s)
   \<and> dom (values (snd (set_unique tid T p s))) = dom (values s)"
proof -
  have "inj_on tid (set Needs) \<longrightarrow>
          bij_betw tid (set Needs) (dom (values (needs_ctor tid Needs h c)))"
    by (simp add: dom_needs_ctor bij_betw_def)
  then show ?thesis
    by (simp add: dom_needs_ctor dom_get dom_set_value dom_set_ptr_X dom_set_ref dom_set_ptr
        dom_set_unique)
qed

theorem slots_fixed_witness:
  "inj_on demo_tid (set [IPrint, IDuck])
   \<and> bij_betw demo_tid (set [IPrint, IDuck])
       (dom (values (needs_ctor demo_tid [IPrint, IDuck] Map.empty (\<lambda>_. 0) :: string state)))
   \<and> dom (values (snd (set_value demo_tid IPrint 8 ''X''
                          (needs_ctor demo_tid [IPrint, IDuck] Map.empty (\<lambda>_. 0)))))
       = {0x401000, 0x401010}"
proof -
  let ?s = "needs_ctor demo_tid [IPrint, IDuck] Map.empty (\<lambda>_. 0) :: string state"
  have i: "inj_on demo_tid (set [IPrint, IDuck])"
    by (rule inj_on_subset [OF inj_demo_tid]) simp
  note f = slots_fixed [of demo_tid "[IPrint, IDuck]" Map.empty "\<lambda>_. 0" IPrint ?s 8 "''X''" 0]
  from f have d: "dom (values ?s) = demo_tid ` set [IPrint, IDuck]" by (rule conjunct1)
  from f i have b: "bij_betw demo_tid (set [IPrint, IDuck]) (dom (values ?s))" by blast
  from f have "dom (values (snd (set_value demo_tid IPrint 8 ''X'' ?s))) = dom (values ?s)"
    by blast
  with d have "dom (values (snd (set_value demo_tid IPrint 8 ''X'' ?s))) = {0x401000, 0x401010}"
    by simp
  with i b show ?thesis by blast
qed

text \<open>
  C10. When an overload of \<^verbatim>\<open>set\<close> throws, for an undeclared type or for a null pointer
  refused by the wrapper's constructor, the map of the container is what it was before the
  call, so the targeted slot keeps its wrapper. For the value, pointer and reference
  overloads the whole state is unchanged. The overload taking a \<^verbatim>\<open>std::unique_ptr<T>\<close>
  leaves the state unchanged but for the object its argument owned, which dies with the
  argument.
\<close>

theorem set_failure_keeps_values:
  "(fst (set_value tid T a v s) = Inl e \<longrightarrow> snd (set_value tid T a v s) = s)
   \<and> (fst (set_ptr_X tid T p s) = Inl e \<longrightarrow> snd (set_ptr_X tid T p s) = s)
   \<and> (fst (set_ref tid T p s) = Inl e \<longrightarrow> snd (set_ref tid T p s) = s)
   \<and> (fst (set_ptr tid T p s) = Inl e \<longrightarrow> snd (set_ptr tid T p s) = s)
   \<and> (fst (set_unique tid T p s) = Inl e \<longrightarrow>
        snd (set_unique tid T p s) = unique_ptr_dtor p s
        \<and> values (snd (set_unique tid T p s)) = values s)"
proof (cases "values s (tid T) = None")
  case True
  then show ?thesis
    by (simp add: set_value_undeclared set_ptr_X_undeclared set_ref_undeclared
        set_ptr_undeclared set_unique_undeclared values_unique_ptr_dtor)
next
  case False
  then show ?thesis
    by (simp add: set_value_declared set_ptr_X_declared set_ref_declared
        set_ptr_declared set_unique_declared unique_ptr_dtor_def)
qed

theorem set_failure_keeps_values_witness:
  "fst (set_ptr demo_tid IPrint nullptr A_populated) = Inl (invalid_argument ''Null raw pointer!'')
   \<and> snd (set_ptr demo_tid IPrint nullptr A_populated) = A_populated
   \<and> fst (set_unique demo_tid StdoutDuck 7 A_populated)
       = Inl (invalid_argument ''Type specified is not a need!'')
   \<and> values (snd (set_unique demo_tid StdoutDuck 7 A_populated)) = values A_populated
   \<and> values A_populated (demo_tid IPrint) = Some (Some (value_wrapper 8))"
proof -
  have 1: "fst (set_ptr demo_tid IPrint nullptr A_populated)
             = Inl (invalid_argument ''Null raw pointer!'')"
    by (simp add: set_ptr_declared values_A_populated)
  have 2: "fst (set_unique demo_tid StdoutDuck 7 A_populated)
             = Inl (invalid_argument ''Type specified is not a need!'')"
    by (simp add: set_unique_undeclared values_A_populated)
  from 1 have "snd (set_ptr demo_tid IPrint nullptr A_populated) = A_populated"
    using set_failure_keeps_values
      [of demo_tid IPrint 9 "''W''" A_populated "invalid_argument ''Null raw pointer!''" nullptr]
    by blast
  moreover from 2
  have "values (snd (set_unique demo_tid StdoutDuck 7 A_populated)) = values A_populated"
    using set_failure_keeps_values
      [of demo_tid StdoutDuck 9 "''W''" A_populated
        "invalid_argument ''Type specified is not a need!''" 7]
    by blast
  ultimately show ?thesis using 1 2 by (simp add: values_A_populated)
qed

text \<open>
  C4. For a declared type \<open>T\<close>, \<^verbatim>\<open>set<T>(v)\<close> by value succeeds and \<^verbatim>\<open>get<T>()\<close> then
  returns the address of the wrapper's own member, where the object \<open>v\<close> lives. The wrapper
  being replaced is still alive when \<^verbatim>\<open>new\<close> runs, so the storage \<open>a\<close> that \<^verbatim>\<open>new\<close>
  returns is not the storage of that wrapper's value. The same holds for a non-null pointer
  (or reference, or unique pointer) \<open>p\<close> to a live object \<open>v\<close> that the replaced wrapper
  does not own: \<^verbatim>\<open>get<T>()\<close> returns \<open>p\<close>, and the object at \<open>p\<close> still is \<open>v\<close>.
\<close>

theorem set_get_roundtrip:
  assumes "dom (values s) = tid ` set Needs" and "T \<in> set Needs"
  shows "(\<not> slot_owns s (tid T) a \<longrightarrow>
            fst (set_value tid T a v s) = Inr ()
          \<and> get tid T (snd (set_value tid T a v s)) = (Inr a, snd (set_value tid T a v s))
          \<and> heap (snd (set_value tid T a v s)) a = Some v)
       \<and> (p \<noteq> nullptr \<and> heap s p = Some v \<and> \<not> slot_owns s (tid T) p \<longrightarrow>
            (\<forall>r \<in> {set_ptr_X tid T p s, set_ref tid T p s, set_ptr tid T p s,
                    set_unique tid T p s}.
               fst r = Inr () \<and> get tid T (snd r) = (Inr p, snd r) \<and> heap (snd r) p = Some v))"
proof -
  from assms have d: "values s (tid T) \<noteq> None" by (rule declared_has_slot)
  have val: "heap (snd (set_value tid T a v s)) a = Some v" if "\<not> slot_owns s (tid T) a"
  proof -
    from that have "\<not> slot_owns (s\<lparr>heap := (heap s)(a \<mapsto> v)\<rparr>) (tid T) a"
      by (simp add: slot_owns_def)
    then have "heap (reset (tid T) (Some (value_wrapper a)) (s\<lparr>heap := (heap s)(a \<mapsto> v)\<rparr>)) a
                 = heap (s\<lparr>heap := (heap s)(a \<mapsto> v)\<rparr>) a"
      by (rule heap_reset_not_owned)
    with d show ?thesis by (simp add: set_value_declared)
  qed
  have uniq: "heap (snd (set_unique tid T p s)) p = Some v"
    if "p \<noteq> nullptr" "heap s p = Some v" "\<not> slot_owns s (tid T) p"
  proof -
    from that(3) have "\<not> slot_owns (s\<lparr>use_count := (use_count s)(p := 1)\<rparr>) (tid T) p"
      by (simp add: slot_owns_def)
    then have "heap (reset (tid T) (Some (sptr_wrapper p)) (s\<lparr>use_count := (use_count s)(p := 1)\<rparr>)) p
                 = heap (s\<lparr>use_count := (use_count s)(p := 1)\<rparr>) p"
      by (rule heap_reset_not_owned)
    with d that(1,2) show ?thesis by (simp add: set_unique_declared)
  qed
  from d val uniq show ?thesis
    by (simp add: set_value_declared set_ptr_X_declared set_ref_declared set_ptr_declared
        set_unique_declared get_after_reset heap_reset_not_owned)
qed

theorem set_get_roundtrip_witness:
  "dom (values A_populated) = demo_tid ` set [IPrint, IDuck]
   \<and> IPrint \<in> set [IPrint, IDuck]
   \<and> \<not> slot_owns A_populated (demo_tid IPrint) 9
   \<and> (7::nat) \<noteq> nullptr \<and> heap A_populated 7 = Some ''World!''
   \<and> \<not> slot_owns A_populated (demo_tid IPrint) 7
   \<and> get demo_tid IPrint (snd (set_value demo_tid IPrint 9 ''World!'' A_populated))
       = (Inr 9, snd (set_value demo_tid IPrint 9 ''World!'' A_populated))
   \<and> heap (snd (set_value demo_tid IPrint 9 ''World!'' A_populated)) 9 = Some ''World!''
   \<and> get demo_tid IPrint (snd (set_ptr_X demo_tid IPrint 7 A_populated))
       = (Inr 7, snd (set_ptr_X demo_tid IPrint 7 A_populated))
   \<and> heap (snd (set_ptr_X demo_tid IPrint 7 A_populated)) 7 = Some ''World!''"
proof -
  have m: "IPrint \<in> set [IPrint, IDuck]" by simp
  have n9: "\<not> slot_owns A_populated (demo_tid IPrint) 9"
    by (simp add: slot_owns_def values_A_populated)
  have n7: "\<not> slot_owns A_populated (demo_tid IPrint) 7"
    by (simp add: slot_owns_def values_A_populated)
  have h7: "heap A_populated 7 = Some ''World!''" by (simp add: heap_A_populated)
  note r = set_get_roundtrip [OF dom_values_A_populated m, of 9 "''World!''" 7]
  from r n9 have
    "get demo_tid IPrint (snd (set_value demo_tid IPrint 9 ''World!'' A_populated))
       = (Inr 9, snd (set_value demo_tid IPrint 9 ''World!'' A_populated))
     \<and> heap (snd (set_value demo_tid IPrint 9 ''World!'' A_populated)) 9 = Some ''World!''"
    by blast
  moreover from r n7 h7 have
    "get demo_tid IPrint (snd (set_ptr_X demo_tid IPrint 7 A_populated))
       = (Inr 7, snd (set_ptr_X demo_tid IPrint 7 A_populated))
     \<and> heap (snd (set_ptr_X demo_tid IPrint 7 A_populated)) 7 = Some ''World!''"
    by simp
  ultimately show ?thesis using dom_values_A_populated m n9 n7 h7 by simp
qed

text \<open>
  C6. When the slot of \<open>T\<close> holds a wrapper \<open>old\<close>, every overload of \<^verbatim>\<open>set<T>\<close> given a
  non-null argument succeeds and puts its new wrapper \<open>w\<close> in the slot in place of \<open>old\<close>;
  \<^verbatim>\<open>get<T>()\<close> from then on returns the pointer of \<open>w\<close> (and changes nothing, so every
  later call does); and the object that \<open>old\<close> was the last owner of is no longer alive.
  The pairs list each overload with the wrapper it builds.
\<close>

theorem reset_replaces_and_releases:
  assumes "values s (tid T) = Some (Some old)" and "p \<noteq> nullptr"
    and "(r, w) \<in> {(set_value tid T a v s, value_wrapper a),
             (set_ptr_X tid T p s, ptr_wrapper p),
             (set_ref tid T p s, ptr_wrapper p),
             (set_ptr tid T p s, ptr_wrapper p),
             (set_unique tid T p s, sptr_wrapper p)}"
  shows "fst r = Inr ()
       \<and> values (snd r) (tid T) = Some (Some w)
       \<and> get tid T (snd r) = (Inr (wrapper_get w), snd r)
       \<and> (last_owner s old \<longrightarrow> heap (snd r) (wrapper_get old) = None)"
proof -
  have rel: "\<And>s1. values s1 = values s \<Longrightarrow> (last_owner s old \<longrightarrow> last_owner s1 old) \<Longrightarrow>
      last_owner s old \<longrightarrow> heap (reset (tid T) (Some w) s1) (wrapper_get old) = None"
    using assms(1) by (simp add: heap_reset_released)
  have core: "\<And>s1. values s1 = values s \<Longrightarrow> (last_owner s old \<longrightarrow> last_owner s1 old) \<Longrightarrow>
      r = (Inr (), reset (tid T) (Some w) s1) \<Longrightarrow> ?thesis"
    using rel by (simp add: values_reset get_after_reset)
  from assms(3) consider
      "r = set_value tid T a v s" "w = value_wrapper a"
    | "r = set_ptr_X tid T p s" "w = ptr_wrapper p"
    | "r = set_ref tid T p s" "w = ptr_wrapper p"
    | "r = set_ptr tid T p s" "w = ptr_wrapper p"
    | "r = set_unique tid T p s" "w = sptr_wrapper p"
    by auto
  then show ?thesis
  proof cases
    case 1
    show ?thesis
      by (rule core [of "s\<lparr>heap := (heap s)(a \<mapsto> v)\<rparr>"])
        (use 1 assms(1) in \<open>simp_all add: set_value_declared\<close>, cases old, simp_all)
  next
    case 2
    show ?thesis
      by (rule core [of s]) (use 2 assms(1,2) in \<open>simp_all add: set_ptr_X_declared\<close>)
  next
    case 3
    show ?thesis
      by (rule core [of s]) (use 3 assms(1,2) in \<open>simp_all add: set_ref_declared\<close>)
  next
    case 4
    show ?thesis
      by (rule core [of s]) (use 4 assms(1,2) in \<open>simp_all add: set_ptr_declared\<close>)
  next
    case 5
    show ?thesis
      by (rule core [of "s\<lparr>use_count := (use_count s)(p := 1)\<rparr>"])
        (use 5 assms(1,2) in \<open>simp_all add: set_unique_declared\<close>, cases old, simp_all)
  qed
qed

theorem reset_replaces_and_releases_witness:
  "values A_populated (demo_tid IPrint) = Some (Some (value_wrapper 8))
   \<and> (7::nat) \<noteq> nullptr
   \<and> last_owner A_populated (value_wrapper 8)
   \<and> heap A_populated 8 = Some ''X''
   \<and> fst (set_value demo_tid IPrint 9 ''World!'' A_populated) = Inr ()
   \<and> values (snd (set_value demo_tid IPrint 9 ''World!'' A_populated)) (demo_tid IPrint)
       = Some (Some (value_wrapper 9))
   \<and> get demo_tid IPrint (snd (set_value demo_tid IPrint 9 ''World!'' A_populated))
       = (Inr 9, snd (set_value demo_tid IPrint 9 ''World!'' A_populated))
   \<and> heap (snd (set_value demo_tid IPrint 9 ''World!'' A_populated)) 8 = None"
proof -
  have v: "values A_populated (demo_tid IPrint) = Some (Some (value_wrapper 8))"
    by (simp add: values_A_populated)
  have p: "(7::nat) \<noteq> nullptr" by simp
  have l: "last_owner A_populated (value_wrapper 8)" by simp
  have h: "heap A_populated 8 = Some ''X''" by (simp add: heap_A_populated)
  have "(set_value demo_tid IPrint 9 ''World!'' A_populated, value_wrapper 9) \<in>
          {(set_value demo_tid IPrint 9 ''World!'' A_populated, value_wrapper 9),
           (set_ptr_X demo_tid IPrint 7 A_populated, ptr_wrapper 7),
           (set_ref demo_tid IPrint 7 A_populated, ptr_wrapper 7),
           (set_ptr demo_tid IPrint 7 A_populated, ptr_wrapper 7),
           (set_unique demo_tid IPrint 7 A_populated, sptr_wrapper 7)}"
    by simp
  from reset_replaces_and_releases [OF v p this] l v p h show ?thesis by simp
qed

text \<open>
  C1. \<^verbatim>\<open>set<IPrint>(std::unique_ptr<IPrint>(...))\<close> on the demo's container, the pointer
  owning the object at address 7: the slot then holds an \<open>sptr_wrapper\<close>, the shared
  wrapper, and not the \<open>uptr_wrapper\<close> that the header defines for a unique pointer.
\<close>

theorem set_unique_installs_shared_wrapper:
  "fst (set_unique demo_tid IPrint 7 (A_ctor [7 \<mapsto> ''World!''])) = Inr ()
   \<and> values (snd (set_unique demo_tid IPrint 7 (A_ctor [7 \<mapsto> ''World!'']))) (demo_tid IPrint)
       = Some (Some (sptr_wrapper 7))
   \<and> values (snd (set_unique demo_tid IPrint 7 (A_ctor [7 \<mapsto> ''World!'']))) (demo_tid IPrint)
       \<noteq> Some (Some (uptr_wrapper 7))"
  by (simp add: set_unique_declared values_A_ctor values_reset)

end
